theory Spec2Isabelle
  imports Main
begin

section \<open>Strings and Python values\<close>

text \<open>
  Python strings are modelled as \<open>string\<close> (byte strings); \<open>str.lower\<close> and
  \<open>str.upper\<close> are the ASCII case mappings, every other byte is left as it is.
\<close>

definition lower_char :: "char \<Rightarrow> char" where
  "lower_char c =
     (let n = (of_char c :: nat) in if 65 \<le> n \<and> n \<le> 90 then char_of (n + 32) else c)"

definition upper_char :: "char \<Rightarrow> char" where
  "upper_char c =
     (let n = (of_char c :: nat) in if 97 \<le> n \<and> n \<le> 122 then char_of (n - 32) else c)"

definition str_lower :: "string \<Rightarrow> string" where
  "str_lower s = map lower_char s"

definition str_upper :: "string \<Rightarrow> string" where
  "str_upper s = map upper_char s"

text \<open>
  The values a module name or the argument of \<open>ensure\<close> can be: \<open>None\<close>, a string,
  the \<open>...\<close> placeholder of the class variable, an integer, or a reference to a manager
  object on the heap.
\<close>

datatype pyval = PyNone | PyStr string | PyEllipsis | PyInt int | PyRef nat

datatype error =
    AttributeError
  | TypeError
  | OSError
  | ParsingError
  | NoSectionError string
  | NoOptionError string string
  | Bio2BELMissingNameError
  | Bio2BELModuleCaseError
  | LedgerWriteError
  | SQLAlchemyError

text \<open>\<open>module_name.lower()\<close>: only a string has the method.\<close>

definition py_lower :: "pyval \<Rightarrow> error + string" where
  "py_lower v = (case v of PyStr s \<Rightarrow> Inr (str_lower s) | _ \<Rightarrow> Inl AttributeError)"



section \<open>Configuration files as \<open>ConfigParser\<close> sees them\<close>

text \<open>
  The content of an INI file after parsing: the options of the \<open>DEFAULT\<close> section and
  the options of every named section. Option names are stored as the parser stores them
  (lower case); values are the strings \<open>get\<close> yields. The text of a file is not
  modelled: a file holds what the parser makes of it, what is written reads back as it was
  written, and the \<open>%\<close> interpolation of values is left out.
\<close>

record ini =
  defaults :: "string \<rightharpoonup> string"
  sections :: "string \<rightharpoonup> (string \<rightharpoonup> string)"

definition empty_ini :: ini where
  "empty_ini = \<lparr>defaults = Map.empty, sections = Map.empty\<rparr>"

definition default_section :: string where
  "default_section = ''DEFAULT''"

definition optionxform :: "string \<Rightarrow> string" where
  "optionxform option = str_lower option"

text \<open>
  \<open>ConfigParser.has_option\<close>: an empty section name or \<open>DEFAULT\<close> asks the defaults;
  a section that does not exist has no option; an option of an existing section is found
  in the section or in the defaults.
\<close>

definition has_option :: "ini \<Rightarrow> string \<Rightarrow> string \<Rightarrow> bool" where
  "has_option c section option =
     (if section = [] \<or> section = default_section then defaults c (optionxform option) \<noteq> None
      else (case sections c section of
              None \<Rightarrow> False
            | Some sectiondict \<Rightarrow>
                sectiondict (optionxform option) \<noteq> None \<or> defaults c (optionxform option) \<noteq> None))"

text \<open>
  \<open>ConfigParser.get\<close> without fallback: a section that does not exist and is not
  \<open>DEFAULT\<close> raises \<open>NoSectionError\<close>; the option is looked up in the section, then in
  the defaults, and a missing option raises \<open>NoOptionError\<close>.
\<close>

definition config_get :: "ini \<Rightarrow> string \<Rightarrow> string \<Rightarrow> error + string" where
  "config_get c section option =
     (case (case sections c section of
              Some sectiondict \<Rightarrow> Inr sectiondict
            | None \<Rightarrow> if section \<noteq> default_section then Inl (NoSectionError section)
                      else Inr Map.empty) of
        Inl e \<Rightarrow> Inl e
      | Inr sectiondict \<Rightarrow>
          (case sectiondict (optionxform option) of
             Some v \<Rightarrow> Inr v
           | None \<Rightarrow> (case defaults c (optionxform option) of
                        Some v \<Rightarrow> Inr v
                      | None \<Rightarrow> Inl (NoOptionError (optionxform option) section))))"

section \<open>The world: environment, file system, database, ledger, objects\<close>

text \<open>The constants of \<open>bio2bel.constants\<close>, which the functions below take as a parameter.\<close>

record constants =
  BIO2BEL_DIR :: string
  DEFAULT_CACHE_CONNECTION :: string
  DEFAULT_CONFIG_PATH :: string

text \<open>
  A path of the file system holds a parseable INI file, a file whose content the parser
  rejects, or something \<open>open\<close> cannot read (a directory, a file without read permission).
\<close>

datatype fs_entry = Ini ini | Malformed | Unreadable

text \<open>The ledger entry of the data model.\<close>

datatype kind = POPULATE | DROP

record action =
  action_id :: nat
  action_module_name :: string
  action_kind :: kind
  action_timestamp :: nat
  action_session_identity :: "nat option"

text \<open>
  A manager class: its name, the class variable \<open>module_name\<close> (\<open>...\<close> until a subclass
  sets it), the names of the classes of its method resolution order (itself included), the
  abstract methods it has not overridden, and the tables of the metadata of its \<open>base\<close>.
\<close>

record manager_class =
  cls_name :: string
  cls_module_name :: pyval
  cls_mro :: "string list"
  cls_abstract_methods :: "string list"
  cls_base_metadata :: "string list"

type_synonym engine = string

text \<open>
  A manager object: its class and the attributes \<open>__init__\<close> sets. The session maker
  and the session are wrappers of the engine and carry no state of their own here.
\<close>

record manager =
  self_class :: manager_class
  self_connection :: string
  self_engine :: engine

text \<open>
  A database is the list of its tables: the engine a table belongs to, its name and the
  number of its rows.
\<close>

type_synonym database = "(engine \<times> string \<times> nat) list"

text \<open>
  The state every operation runs in. \<open>created\<close> logs, in order, the paths opened for
  writing; \<open>can_create\<close> tells whether \<open>open(path, 'w')\<close> succeeds on a path that does
  not exist; \<open>heap\<close> holds the manager objects, the address of an object being its index.
\<close>

record world =
  environ :: "string \<rightharpoonup> string"
  files :: "string \<rightharpoonup> fs_entry"
  can_create :: "string \<Rightarrow> bool"
  created :: "string list"
  db :: database
  ledger :: "action list"
  ledger_available :: bool
  clock :: nat
  heap :: "manager list"

text \<open>
  The capabilities of SQLAlchemy the managers use. \<open>create_engine\<close> parses the
  connection string; \<open>create_all\<close> and \<open>drop_all\<close> of the metadata take the engine, the
  tables and \<open>checkfirst\<close>, and change the database or fail (possibly half way).
\<close>

record sqlalchemy =
  create_engine :: "string \<Rightarrow> error + engine"
  metadata_create_all :: "engine \<Rightarrow> string list \<Rightarrow> bool \<Rightarrow> database \<Rightarrow> (error + unit) \<times> database"
  metadata_drop_all :: "engine \<Rightarrow> string list \<Rightarrow> bool \<Rightarrow> database \<Rightarrow> (error + unit) \<times> database"

subsection \<open>\<open>os.path\<close> and \<open>ConfigParser\<close> on the file system\<close>

definition path_exists :: "world \<Rightarrow> string \<Rightarrow> bool" where
  "path_exists w path = (files w path \<noteq> None)"

text \<open>\<open>posixpath.join\<close>: an absolute component restarts the path.\<close>

definition join_step :: "string \<Rightarrow> string \<Rightarrow> string" where
  "join_step path b =
     (if (case b of [] \<Rightarrow> False | c # _ \<Rightarrow> c = CHR ''/'') then b
      else if path = [] \<or> last path = CHR ''/'' then path @ b
      else path @ ''/'' @ b)"

definition path_join :: "string \<Rightarrow> string list \<Rightarrow> string" where
  "path_join a p = foldl join_step a p"

text \<open>
  \<open>ConfigParser().read(filename)\<close> on a fresh parser: a file that cannot be opened is
  ignored, a file the parser rejects raises.
\<close>

definition config_read :: "world \<Rightarrow> string \<Rightarrow> error + ini" where
  "config_read w filename =
     (case files w filename of
        None \<Rightarrow> Inr empty_ini
      | Some Unreadable \<Rightarrow> Inr empty_ini
      | Some Malformed \<Rightarrow> Inl ParsingError
      | Some (Ini c) \<Rightarrow> Inr c)"

section \<open>\<open>bio2bel.utils.get_connection\<close>\<close>

text \<open>
  Step 4 of the source's comments (lines 72 to 78): the module's section of the global
  configuration file. \<open>None\<close> means that control falls through to the next step.
\<close>

definition global_module_connection :: "constants \<Rightarrow> string \<Rightarrow> world \<Rightarrow> (error + string) option" where
  "global_module_connection k module_name w =
     (if path_exists w (DEFAULT_CONFIG_PATH k) then
        (case config_read w (DEFAULT_CONFIG_PATH k) of
           Inl e \<Rightarrow> Some (Inl e)
         | Inr global_config \<Rightarrow>
             if has_option global_config module_name ''connection''
             then Some (config_get global_config module_name ''connection'')
             else None)
      else None)"

text \<open>Step 5 (lines 81 to 88): the default section of the module's own configuration file.\<close>

definition module_config_path :: "constants \<Rightarrow> string \<Rightarrow> string" where
  "module_config_path k module_name = path_join (BIO2BEL_DIR k) [module_name, ''config.ini'']"

definition local_module_connection :: "constants \<Rightarrow> string \<Rightarrow> world \<Rightarrow> (error + string) option" where
  "local_module_connection k module_name w =
     (if path_exists w (module_config_path k module_name) then
        (case config_read w (module_config_path k module_name) of
           Inl e \<Rightarrow> Some (Inl e)
         | Inr local_config \<Rightarrow>
             if has_option local_config default_section ''connection''
             then Some (config_get local_config default_section ''connection'')
             else None)
      else None)"

text \<open>
  Step 7 (lines 97 to 115): create the global configuration file if there is none, with
  the default connection in its default section, then read the default section.
\<close>

definition seeded_config :: "constants \<Rightarrow> ini" where
  "seeded_config k =
     \<lparr>defaults = [''connection'' \<mapsto> DEFAULT_CACHE_CONNECTION k], sections = Map.empty\<rparr>"

definition create_config :: "constants \<Rightarrow> world \<Rightarrow> error + world" where
  "create_config k w =
     (if can_create w (DEFAULT_CONFIG_PATH k)
      then Inr (w\<lparr>files := (files w)(DEFAULT_CONFIG_PATH k \<mapsto> Ini (seeded_config k)),
                  created := created w @ [DEFAULT_CONFIG_PATH k]\<rparr>)
      else Inl OSError)"

definition default_connection :: "constants \<Rightarrow> world \<Rightarrow> (error + string) \<times> world" where
  "default_connection k w =
     (case (if \<not> path_exists w (DEFAULT_CONFIG_PATH k) then create_config k w else Inr w) of
        Inl e \<Rightarrow> (Inl e, w)
      | Inr w' \<Rightarrow>
          (case config_read w' (DEFAULT_CONFIG_PATH k) of
             Inl e \<Rightarrow> (Inl e, w')
           | Inr config \<Rightarrow>
               if \<not> has_option config default_section ''connection''
               then (Inr (DEFAULT_CACHE_CONNECTION k), w')
               else (config_get config default_section ''connection'', w')))"

text \<open>The function itself, in the order of the source.\<close>

definition get_connection ::
  "constants \<Rightarrow> pyval \<Rightarrow> string option \<Rightarrow> world \<Rightarrow> (error + string) \<times> world" where
  "get_connection k module_name connection w =
     (case py_lower module_name of
        Inl e \<Rightarrow> (Inl e, w)
      | Inr module_name \<Rightarrow>
     (case connection of
        Some c \<Rightarrow> (Inr c, w)
      | None \<Rightarrow>
     (case environ w (''BIO2BEL_'' @ str_upper module_name @ ''_CONNECTION'') of
        Some bio2bel_module_env_value \<Rightarrow> (Inr bio2bel_module_env_value, w)
      | None \<Rightarrow>
     (case global_module_connection k module_name w of
        Some r \<Rightarrow> (r, w)
      | None \<Rightarrow>
     (case local_module_connection k module_name w of
        Some r \<Rightarrow> (r, w)
      | None \<Rightarrow>
     (case environ w ''BIO2BEL_CONNECTION'' of
        Some global_environ_connection \<Rightarrow> (Inr global_environ_connection, w)
      | None \<Rightarrow> default_connection k w))))))"

section \<open>The action ledger\<close>

text \<open>
  Modelled from the spec: \<open>bio2bel.models.Action\<close> with \<open>store_populate\<close> and
  \<open>store_drop\<close> is not among the sources. An action appends one entry to the ledger: the
  module name in lower case, the kind, the time of insertion and the session identity; the
  identifiers grow with the ledger. When the storage is not available the write raises and
  nothing is written.
\<close>

definition record_action :: "kind \<Rightarrow> pyval \<Rightarrow> nat option \<Rightarrow> world \<Rightarrow> (error + unit) \<times> world" where
  "record_action a module_name session w =
     (case py_lower module_name of
        Inl e \<Rightarrow> (Inl e, w)
      | Inr name \<Rightarrow>
          if ledger_available w
          then (Inr (),
                w\<lparr>ledger := ledger w @
                     [\<lparr>action_id = Suc (length (ledger w)), action_module_name = name,
                       action_kind = a, action_timestamp = clock w,
                       action_session_identity = session\<rparr>]\<rparr>)
          else (Inl LedgerWriteError, w))"

text \<open>
  Modelled from the spec: \<open>Action.store_populate(resource, session=None)\<close>, the spec's
  \<open>record_populate\<close>.
\<close>

definition store_populate :: "pyval \<Rightarrow> nat option \<Rightarrow> world \<Rightarrow> (error + unit) \<times> world" where
  "store_populate resource session w = record_action POPULATE resource session w"

text \<open>
  Modelled from the spec: \<open>Action.store_drop(resource)\<close>, the spec's \<open>record_drop\<close>,
  which takes no session.
\<close>

definition store_drop :: "pyval \<Rightarrow> world \<Rightarrow> (error + unit) \<times> world" where
  "store_drop resource w = record_action DROP resource None w"

text \<open>
  \<open>bio2bel_populater(resource, session)(f)\<close> (lines 133 to 139 of \<open>utils.py\<close>): the
  wrapped function stores the populate action, then calls \<open>f\<close>.
\<close>

definition bio2bel_populater ::
  "pyval \<Rightarrow> nat option \<Rightarrow> (world \<Rightarrow> (error + 'a) \<times> world) \<Rightarrow> world \<Rightarrow> (error + 'a) \<times> world" where
  "bio2bel_populater resource session f w =
     (case store_populate resource session w of
        (Inl e, w') \<Rightarrow> (Inl e, w')
      | (Inr _, w') \<Rightarrow> f w')"

section \<open>The managers of \<open>bio2bel.abstractmanager\<close>\<close>







text \<open>
  \<open>AbstractManager.drop_all\<close> (lines 207 to 214): the tables are dropped, then the drop
  action is stored.
\<close>

definition drop_all :: "sqlalchemy \<Rightarrow> manager \<Rightarrow> bool \<Rightarrow> world \<Rightarrow> (error + unit) \<times> world" where
  "drop_all sa self check_first w =
     (case metadata_drop_all sa (self_engine self) (cls_base_metadata (self_class self))
             check_first (db w) of
        (Inl e, d) \<Rightarrow> (Inl e, w\<lparr>db := d\<rparr>)
      | (Inr _, d) \<Rightarrow> store_drop (cls_module_name (self_class self)) (w\<lparr>db := d\<rparr>))"

section \<open>Callers and conditions of the claims\<close>



text \<open>The world after the global configuration file has been created with its default.\<close>

definition seed :: "constants \<Rightarrow> world \<Rightarrow> world" where
  "seed k w =
     w\<lparr>files := (files w)(DEFAULT_CONFIG_PATH k \<mapsto> Ini (seeded_config k)),
       created := created w @ [DEFAULT_CONFIG_PATH k]\<rparr>"


text \<open>The ledger holds lower-case module names only.\<close>

definition all_lowercase :: "action list \<Rightarrow> bool" where
  "all_lowercase entries = list_all (\<lambda>e. action_module_name e = str_lower (action_module_name e)) entries"

section \<open>Example states\<close>

definition example_constants :: constants where
  "example_constants =
     \<lparr>BIO2BEL_DIR = ''/b'', DEFAULT_CACHE_CONNECTION = ''sqlite:///b.db'',
      DEFAULT_CONFIG_PATH = ''/b/config.ini''\<rparr>"

text \<open>Nothing is configured, and the global configuration file can be created.\<close>

definition fresh_world :: world where
  "fresh_world =
     \<lparr>environ = Map.empty, files = Map.empty, can_create = (\<lambda>path. True), created = [],
      db = [], ledger = [], ledger_available = True, clock = 0, heap = []\<rparr>"

text \<open>Every source of a connection for the module \<open>hgnc\<close> is configured, each with its own value.\<close>

definition configured_world :: world where
  "configured_world =
     fresh_world
       \<lparr>environ := [''BIO2BEL_HGNC_CONNECTION'' \<mapsto> ''env-hgnc'', ''BIO2BEL_CONNECTION'' \<mapsto> ''env-any''],
        files :=
          [''/b/config.ini'' \<mapsto>
             Ini \<lparr>defaults = [''connection'' \<mapsto> ''global-default''],
                  sections = [''hgnc'' \<mapsto> [''connection'' \<mapsto> ''global-hgnc'']]\<rparr>,
           ''/b/hgnc/config.ini'' \<mapsto>
             Ini \<lparr>defaults = [''connection'' \<mapsto> ''local-hgnc''], sections = Map.empty\<rparr>]\<rparr>"

text \<open>The global configuration file, or the file of the module \<open>hgnc\<close>, is not parseable.\<close>

definition malformed_global_world :: world where
  "malformed_global_world = fresh_world\<lparr>files := [''/b/config.ini'' \<mapsto> Malformed]\<rparr>"

definition malformed_local_world :: world where
  "malformed_local_world = fresh_world\<lparr>files := [''/b/hgnc/config.ini'' \<mapsto> Malformed]\<rparr>"




text \<open>
  A database library for the examples: every connection string gives an engine, creating
  adds the tables that are missing, dropping removes the tables of the engine.
\<close>

definition example_sqlalchemy :: sqlalchemy where
  "example_sqlalchemy =
     \<lparr>create_engine = (\<lambda>connection. Inr connection),
      metadata_create_all =
        (\<lambda>eng tables checkfirst d.
           (Inr (), d @ map (\<lambda>t. (eng, t, 0)) (filter (\<lambda>t. (eng, t) \<notin> set (map (\<lambda>(e, n, r). (e, n)) d)) tables))),
      metadata_drop_all =
        (\<lambda>eng tables checkfirst d.
           (Inr (), filter (\<lambda>(e, n, r). \<not> (e = eng \<and> n \<in> set tables)) d))\<rparr>"

text \<open>A database library whose schema operations fail without changing anything.\<close>

definition failing_sqlalchemy :: sqlalchemy where
  "failing_sqlalchemy =
     \<lparr>create_engine = (\<lambda>connection. Inr connection),
      metadata_create_all = (\<lambda>eng tables checkfirst d. (Inl SQLAlchemyError, d)),
      metadata_drop_all = (\<lambda>eng tables checkfirst d. (Inl SQLAlchemyError, d))\<rparr>"

text \<open>A concrete manager class for the module \<open>hgnc\<close>, and one of its objects.\<close>

definition hgnc_class :: manager_class where
  "hgnc_class =
     \<lparr>cls_name = ''Manager'', cls_module_name = PyStr ''hgnc'',
      cls_mro = [''Manager'', ''AbstractManager'', ''AbstractManagerFlaskMixin'',
                 ''AbstractManagerBase'', ''ABC'', ''AbstractManagerConnectionMixin'', ''object''],
      cls_abstract_methods = [], cls_base_metadata = [''hgnc_gene'']\<rparr>"

definition hgnc_manager :: manager where
  "hgnc_manager =
     \<lparr>self_class = hgnc_class, self_connection = ''sqlite:///b.db'', self_engine = ''sqlite:///b.db''\<rparr>"


text \<open>A populate function that adds three rows to every table, and one that fails.\<close>

definition example_populate :: "world \<Rightarrow> (error + unit) \<times> world" where
  "example_populate w = (Inr (), w\<lparr>db := map (\<lambda>(e, n, r). (e, n, r + 3)) (db w)\<rparr>)"

definition failing_populate :: "world \<Rightarrow> (error + unit) \<times> world" where
  "failing_populate w = (Inl SQLAlchemyError, w)"

text \<open>The table of \<open>hgnc\<close> exists and the manager is on the heap.\<close>

definition managed_world :: world where
  "managed_world =
     fresh_world\<lparr>db := [(''sqlite:///b.db'', ''hgnc_gene'', 0)], heap := [hgnc_manager]\<rparr>"

text \<open>The same, with the storage of the ledger not available.\<close>

definition ledger_down_world :: world where
  "ledger_down_world = managed_world\<lparr>ledger_available := False\<rparr>"

section \<open>Case mapping\<close>

lemma upper_lower_char: "upper_char (lower_char c) = upper_char c"
  by (auto simp: upper_char_def lower_char_def Let_def)

lemma str_upper_lower: "str_upper (str_lower s) = str_upper s"
  by (simp add: str_upper_def str_lower_def upper_lower_char)

lemma lower_lower_char: "lower_char (lower_char c) = lower_char c"
  by (auto simp: lower_char_def Let_def)

lemma str_lower_idem: "str_lower (str_lower s) = str_lower s"
  by (simp add: str_lower_def lower_lower_char)


lemma optionxform_connection: "optionxform ''connection'' = ''connection''"
  unfolding optionxform_def by code_simp



section \<open>The example states, evaluated\<close>

lemma example_global_path: "DEFAULT_CONFIG_PATH example_constants = ''/b/config.ini''"
  by (simp add: example_constants_def)


lemma example_module_path: "module_config_path example_constants ''hgnc'' = ''/b/hgnc/config.ini''"
  by (simp add: module_config_path_def path_join_def join_step_def example_constants_def)

lemma lower_hgnc: "str_lower ''hgnc'' = ''hgnc''"
  by code_simp


section \<open>Connection resolution\<close>

text \<open>
  C4. For every module name \<open>M\<close> and every explicit connection string \<open>X\<close>,
  \<open>get_connection(M, X)\<close> returns exactly \<open>X\<close> and touches nothing, whatever the
  environment variables, the global configuration file and the module's configuration file
  hold.
\<close>

theorem explicit_connection_wins:
  "get_connection k (PyStr M) (Some X) w = (Inr X, w)"
  by (simp add: get_connection_def py_lower_def)

theorem explicit_connection_wins_witness:
  "get_connection example_constants (PyStr ''HGNC'') (Some ''explicit'') configured_world
     = (Inr ''explicit'', configured_world)"
  using explicit_connection_wins [of example_constants "''HGNC''" "''explicit''" configured_world]
  by simp








text \<open>
  The empty module name is outside the claims below. Once the global configuration file
  holds a default \<open>connection\<close>, \<open>has_option\<close> finds it for the empty section name
  and \<open>get\<close> then raises \<open>NoSectionError\<close>.
\<close>

lemma empty_module_name_after_seeding:
  assumes "environ w ''BIO2BEL__CONNECTION'' = None"
  shows "get_connection k (PyStr []) None (seed k w) = (Inl (NoSectionError []), seed k w)"
  using assms
  by (simp add: get_connection_def py_lower_def str_lower_def str_upper_def
      global_module_connection_def path_exists_def seed_def config_read_def has_option_def
      config_get_def seeded_config_def optionxform_connection default_section_def)













text \<open>
  C6. With no explicit connection and the module's variable not set, a malformed global
  configuration file makes \<open>get_connection\<close> raise the parser's error; so does a
  malformed configuration file of the module whenever the global file yields nothing. No
  value is returned and nothing is written.
\<close>

theorem malformed_config_raises:
  assumes "environ w (''BIO2BEL_'' @ str_upper M @ ''_CONNECTION'') = None"
  shows "(files w (DEFAULT_CONFIG_PATH k) = Some Malformed \<longrightarrow>
            get_connection k (PyStr M) None w = (Inl ParsingError, w))
       \<and> (global_module_connection k (str_lower M) w = None
            \<and> files w (module_config_path k (str_lower M)) = Some Malformed \<longrightarrow>
            get_connection k (PyStr M) None w = (Inl ParsingError, w))"
  using assms
  by (simp add: get_connection_def py_lower_def str_upper_lower global_module_connection_def
      local_module_connection_def path_exists_def config_read_def)

theorem malformed_config_raises_witness:
  "environ malformed_global_world (''BIO2BEL_'' @ str_upper ''hgnc'' @ ''_CONNECTION'') = None
   \<and> files malformed_global_world (DEFAULT_CONFIG_PATH example_constants) = Some Malformed
   \<and> get_connection example_constants (PyStr ''hgnc'') None malformed_global_world
       = (Inl ParsingError, malformed_global_world)
   \<and> environ malformed_local_world (''BIO2BEL_'' @ str_upper ''hgnc'' @ ''_CONNECTION'') = None
   \<and> global_module_connection example_constants (str_lower ''hgnc'') malformed_local_world = None
   \<and> files malformed_local_world (module_config_path example_constants (str_lower ''hgnc'')) = Some Malformed
   \<and> get_connection example_constants (PyStr ''hgnc'') None malformed_local_world
       = (Inl ParsingError, malformed_local_world)"
proof -
  have g: "environ malformed_global_world (''BIO2BEL_'' @ str_upper ''hgnc'' @ ''_CONNECTION'') = None"
    by (simp add: malformed_global_world_def fresh_world_def)
  have g': "files malformed_global_world (DEFAULT_CONFIG_PATH example_constants) = Some Malformed"
    by (simp add: malformed_global_world_def example_global_path)
  have h: "environ malformed_local_world (''BIO2BEL_'' @ str_upper ''hgnc'' @ ''_CONNECTION'') = None"
    by (simp add: malformed_local_world_def fresh_world_def)
  have h': "global_module_connection example_constants (str_lower ''hgnc'') malformed_local_world = None"
    by (simp add: lower_hgnc global_module_connection_def path_exists_def malformed_local_world_def
        example_global_path)
  have h'': "files malformed_local_world (module_config_path example_constants (str_lower ''hgnc'')) = Some Malformed"
    by (simp add: lower_hgnc example_module_path malformed_local_world_def)
  from malformed_config_raises [OF g, of example_constants] g g'
    malformed_config_raises [OF h, of example_constants] h h' h''
  show ?thesis
    by simp
qed

section \<open>Module names\<close>




section \<open>The ledger and the lifecycle operations\<close>

lemma py_lower_hgnc: "py_lower (PyStr ''hgnc'') = Inr ''hgnc''"
  by (simp add: py_lower_def lower_hgnc)

lemma upper_case_HGNC: "str_lower ''HGNC'' = ''hgnc''"
  by code_simp

text \<open>
  C8, as the claim states it, fails: the two operations write the ledger at different
  points. With the storage of the ledger down, the wrapped populate function raises before
  the populate function has run (the database is as it was), while \<open>drop_all\<close> raises
  after the tables are gone. With the storage up and the mutation failing, populate has
  left its entry in the ledger and \<open>drop_all\<close> has left none.
\<close>

theorem ledger_point_counterexample:
  "bio2bel_populater (PyStr ''hgnc'') None example_populate ledger_down_world
     = (Inl LedgerWriteError, ledger_down_world)
   \<and> drop_all example_sqlalchemy hgnc_manager True ledger_down_world
     = (Inl LedgerWriteError, ledger_down_world\<lparr>db := []\<rparr>)
   \<and> db ledger_down_world = [(''sqlite:///b.db'', ''hgnc_gene'', 0)]
   \<and> map action_kind (ledger (snd (bio2bel_populater (PyStr ''hgnc'') None failing_populate managed_world)))
     = [POPULATE]
   \<and> ledger (snd (drop_all failing_sqlalchemy hgnc_manager True managed_world)) = []"
  by (simp add: bio2bel_populater_def store_populate_def store_drop_def record_action_def
      py_lower_hgnc drop_all_def ledger_down_world_def managed_world_def fresh_world_def
      example_sqlalchemy_def failing_sqlalchemy_def hgnc_manager_def hgnc_class_def
      example_populate_def failing_populate_def)

text \<open>
  C8, amended. The wrapped populate function writes the ledger entry before it calls the
  populate function, which runs in the world that already holds the entry; when the write
  fails the error is raised, the populate function is not called and nothing has changed.
  \<open>drop_all\<close> drops the tables first: when the drop fails its error is raised and no
  entry is written; when it succeeds the entry is written after it, and a failing write is
  raised with the tables already dropped.
\<close>

theorem ledger_point_per_operation:
  assumes "cls_module_name (self_class self) = PyStr M"
  shows "bio2bel_populater (PyStr R) session f w =
     (if ledger_available w
      then f (w\<lparr>ledger := ledger w @
                 [\<lparr>action_id = Suc (length (ledger w)), action_module_name = str_lower R,
                   action_kind = POPULATE, action_timestamp = clock w,
                   action_session_identity = session\<rparr>]\<rparr>)
      else (Inl LedgerWriteError, w))
   \<and> drop_all sa self check_first w =
     (case metadata_drop_all sa (self_engine self) (cls_base_metadata (self_class self))
             check_first (db w) of
        (Inl e, d) \<Rightarrow> (Inl e, w\<lparr>db := d\<rparr>)
      | (Inr u, d) \<Rightarrow>
          if ledger_available w
          then (Inr (),
                w\<lparr>db := d,
                  ledger := ledger w @
                    [\<lparr>action_id = Suc (length (ledger w)), action_module_name = str_lower M,
                      action_kind = DROP, action_timestamp = clock w,
                      action_session_identity = None\<rparr>]\<rparr>)
          else (Inl LedgerWriteError, w\<lparr>db := d\<rparr>))"
  using assms
  by (simp add: bio2bel_populater_def store_populate_def store_drop_def record_action_def
      py_lower_def drop_all_def split: prod.splits sum.splits)

theorem ledger_point_per_operation_witness:
  "cls_module_name (self_class hgnc_manager) = PyStr ''hgnc''
   \<and> bio2bel_populater (PyStr ''HGNC'') None example_populate managed_world =
       (Inr (),
        managed_world
          \<lparr>ledger := [\<lparr>action_id = 1, action_module_name = ''hgnc'', action_kind = POPULATE,
                       action_timestamp = 0, action_session_identity = None\<rparr>],
           db := [(''sqlite:///b.db'', ''hgnc_gene'', 3)]\<rparr>)
   \<and> drop_all example_sqlalchemy hgnc_manager True managed_world =
       (Inr (),
        managed_world
          \<lparr>db := [],
           ledger := [\<lparr>action_id = 1, action_module_name = ''hgnc'', action_kind = DROP,
                       action_timestamp = 0, action_session_identity = None\<rparr>]\<rparr>)"
proof -
  have c: "cls_module_name (self_class hgnc_manager) = PyStr ''hgnc''"
    by (simp add: hgnc_manager_def hgnc_class_def)
  from ledger_point_per_operation [OF c, of "''HGNC''" None example_populate managed_world
      example_sqlalchemy True] c
  show ?thesis
    by (simp add: upper_case_HGNC lower_hgnc example_populate_def managed_world_def fresh_world_def
        example_sqlalchemy_def hgnc_manager_def hgnc_class_def)
qed

text \<open>
  C9. With the storage of the ledger available, recording a populate for \<open>M\<close> and then a
  drop for \<open>M\<close> appends exactly two entries to the ledger, the populate before the drop,
  both with \<open>M\<close> in lower case whatever the case of the argument; and a ledger that held
  lower-case module names only still does.
\<close>

theorem populate_then_drop_recorded:
  assumes "ledger_available w" and "all_lowercase (ledger w)"
    and "store_populate (PyStr M) session w = (r1, w1)"
    and "store_drop (PyStr M) w1 = (r2, w2)"
  shows "r1 = Inr () \<and> r2 = Inr ()
       \<and> ledger w2 = ledger w @
           [\<lparr>action_id = Suc (length (ledger w)), action_module_name = str_lower M,
             action_kind = POPULATE, action_timestamp = clock w,
             action_session_identity = session\<rparr>,
            \<lparr>action_id = Suc (Suc (length (ledger w))), action_module_name = str_lower M,
             action_kind = DROP, action_timestamp = clock w,
             action_session_identity = None\<rparr>]
       \<and> all_lowercase (ledger w2)"
  using assms
  by (auto simp: store_populate_def store_drop_def record_action_def py_lower_def
      all_lowercase_def str_lower_idem)

theorem populate_then_drop_recorded_witness:
  "ledger_available fresh_world \<and> all_lowercase (ledger fresh_world)
   \<and> ledger (snd (store_drop (PyStr ''HGNC'') (snd (store_populate (PyStr ''HGNC'') (Some 7) fresh_world))))
       = [\<lparr>action_id = 1, action_module_name = ''hgnc'', action_kind = POPULATE,
            action_timestamp = 0, action_session_identity = Some 7\<rparr>,
          \<lparr>action_id = 2, action_module_name = ''hgnc'', action_kind = DROP,
            action_timestamp = 0, action_session_identity = None\<rparr>]"
proof -
  have a: "ledger_available fresh_world"
    by (simp add: fresh_world_def)
  have b: "all_lowercase (ledger fresh_world)"
    by (simp add: fresh_world_def all_lowercase_def)
  from populate_then_drop_recorded [OF a b surjective_pairing surjective_pairing,
      of "''HGNC''" "Some 7"] a b
  show ?thesis
    by (simp add: upper_case_HGNC fresh_world_def)
qed

section \<open>\<open>AbstractManager.ensure\<close>\<close>










end
